theory Spec2Isabelle
  imports Complex_Main
begin

section \<open>Strings, errors and numbers\<close>

text \<open>
  A Python \<open>str\<close> is a sequence of Unicode code points, and \<open>len\<close> counts code points.
  A code point is modelled as a natural number and a string as a list of them;
  \<open>lit\<close> reads an ASCII literal.
\<close>

type_synonym codepoint = nat
type_synonym pystr = "codepoint list"

definition lit :: "string \<Rightarrow> pystr" where
  "lit s = map of_char s"

text \<open>The exceptions the analyzer's operations can raise.\<close>

datatype error = ZeroDivisionError | ValueError | KeyError

fun and_then :: "error + 'a \<Rightarrow> ('a \<Rightarrow> error + 'b) \<Rightarrow> error + 'b" where
  "and_then (Inl e) f = Inl e"
| "and_then (Inr x) f = f x"

text \<open>
  Python's \<open>/\<close> raises on a zero divisor. A \<open>float\<close> is idealised as an exact real: the
  quotient below is the mathematical one, where the code has the nearest double.
\<close>

definition truediv :: "real \<Rightarrow> real \<Rightarrow> error + real" where
  "truediv a b = (if b = 0 then Inl ZeroDivisionError else Inr (a / b))"

definition round_half_even :: "real \<Rightarrow> int" where
  "round_half_even x =
     (let f = \<lfloor>x\<rfloor>; d = x - of_int f
      in if d < 1 / 2 then f
         else if 1 / 2 < d then f + 1
         else if even f then f else f + 1)"

text \<open>
  \<open>round(x, n)\<close>: to \<open>n\<close> decimals, ties to even. The code rounds a double, which never
  lies exactly half way unless the half is a binary fraction, so the two differ where
  the exact quotient is a decimal tie: for 10 words the reading time \<open>round(10 / 200, 1)\<close>
  is 0.1 in the code and 0 here, and \<open>round(43 / 40, 2)\<close> is 1.07 against 1.08. Where the
  exact quotient is farther from a tie than the double is from the quotient, the two
  agree. No statement below rests on the value at a tie.
\<close>

definition py_round :: "real \<Rightarrow> nat \<Rightarrow> real" where
  "py_round x n = of_int (round_half_even (x * 10 ^ n)) / 10 ^ n"

subsection \<open>Whitespace, \<open>strip\<close> and the \<open>split\<close> family\<close>

text \<open>
  The characters for which \<open>str.isspace\<close> holds; \<open>str.strip()\<close>, \<open>str.split()\<close> and the
  regular-expression class \<open>\s\<close> all use this set.
\<close>

definition is_space :: "codepoint \<Rightarrow> bool" where
  "is_space c \<longleftrightarrow>
     (9 \<le> c \<and> c \<le> 13) \<or> (28 \<le> c \<and> c \<le> 32) \<or> c = 0x85 \<or> c = 0xA0 \<or> c = 0x1680 \<or>
     (0x2000 \<le> c \<and> c \<le> 0x200A) \<or> c = 0x2028 \<or> c = 0x2029 \<or> c = 0x202F \<or>
     c = 0x205F \<or> c = 0x3000"

definition strip :: "pystr \<Rightarrow> pystr" where
  "strip s = rev (dropWhile is_space (rev (dropWhile is_space s)))"

text \<open>\<open>s.split()\<close>: the maximal runs of non-whitespace characters.\<close>

fun split_ws_acc :: "pystr \<Rightarrow> pystr \<Rightarrow> pystr list" where
  "split_ws_acc cur [] = (if cur = [] then [] else [cur])"
| "split_ws_acc cur (c # cs) =
     (if is_space c
      then (if cur = [] then split_ws_acc [] cs else cur # split_ws_acc [] cs)
      else split_ws_acc (cur @ [c]) cs)"

definition split_ws :: "pystr \<Rightarrow> pystr list" where
  "split_ws s = split_ws_acc [] s"

text \<open>\<open>s.split(c)\<close> for a one-character separator: every separator closes a piece.\<close>

fun split_char_acc :: "codepoint \<Rightarrow> pystr \<Rightarrow> pystr \<Rightarrow> pystr list" where
  "split_char_acc sep cur [] = [cur]"
| "split_char_acc sep cur (c # cs) =
     (if c = sep then cur # split_char_acc sep [] cs
      else split_char_acc sep (cur @ [c]) cs)"

definition split_char :: "codepoint \<Rightarrow> pystr \<Rightarrow> pystr list" where
  "split_char sep s = split_char_acc sep [] s"

text \<open>\<open>s.split('\n\n')\<close>: the separator is found left to right, without overlap.\<close>

fun split_blank_acc :: "pystr \<Rightarrow> pystr \<Rightarrow> pystr list" where
  "split_blank_acc cur (a # b # cs) =
     (if a = 10 \<and> b = 10 then cur # split_blank_acc [] cs
      else split_blank_acc (cur @ [a]) (b # cs))"
| "split_blank_acc cur [a] = [cur @ [a]]"
| "split_blank_acc cur [] = [cur]"

definition split_blank :: "pystr \<Rightarrow> pystr list" where
  "split_blank s = split_blank_acc [] s"

text \<open>
  \<open>re.split(r'[.!?]+', s)\<close>: a whole run of delimiters separates two pieces; a run at
  either end leaves an empty piece there.
\<close>

definition sentence_end :: "codepoint \<Rightarrow> bool" where
  "sentence_end c \<longleftrightarrow> c = 46 \<or> c = 33 \<or> c = 63"

function re_split_acc :: "(codepoint \<Rightarrow> bool) \<Rightarrow> pystr \<Rightarrow> pystr \<Rightarrow> pystr list" where
  "re_split_acc d cur [] = [cur]"
| "re_split_acc d cur (c # cs) =
     (if d c then cur # re_split_acc d [] (dropWhile d cs)
      else re_split_acc d (cur @ [c]) cs)"
  by pat_completeness auto
termination
  by (relation "measure (\<lambda>(d, cur, s). length s)")
     (auto simp: less_Suc_eq_le length_dropWhile_le)

definition split_sentences :: "pystr \<Rightarrow> pystr list" where
  "split_sentences s = re_split_acc sentence_end [] s"

text \<open>\<open>s.replace(c, '')\<close> for a one-character \<open>c\<close>.\<close>

definition remove_char :: "codepoint \<Rightarrow> pystr \<Rightarrow> pystr" where
  "remove_char c s = filter (\<lambda>x. x \<noteq> c) s"

section \<open>Statistics\<close>

record statistics =
  characterCount :: nat
  characterCountNoSpaces :: nat
  wordCount :: nat
  lineCount :: nat
  paragraphCount :: nat
  sentenceCount :: nat
  averageWordLength :: real
  averageSentenceLength :: real
  readingTime :: real

definition calculate_statistics :: "pystr \<Rightarrow> error + statistics" where
  "calculate_statistics s =
     (let clean_text = strip s;
          char_count = length clean_text;
          char_count_no_spaces = length (remove_char 10 (remove_char 32 clean_text));
          words = split_ws clean_text;
          word_count = length words;
          lines = split_char 10 clean_text;
          line_count = length lines;
          paragraphs = filter (\<lambda>p. strip p \<noteq> []) (split_blank clean_text);
          paragraph_count = length paragraphs;
          sentences = split_sentences clean_text;
          sentence_count = length (filter (\<lambda>x. strip x \<noteq> []) sentences)
      in and_then (if word_count > 0
                   then truediv (of_nat (sum_list (map length words))) (of_nat word_count)
                   else Inr 0) (\<lambda>avg_word_length.
         and_then (if sentence_count > 0
                   then truediv (of_nat word_count) (of_nat sentence_count)
                   else Inr 0) (\<lambda>avg_sentence_length.
         and_then (truediv (of_nat word_count) 200) (\<lambda>minutes.
         Inr \<lparr>characterCount = char_count,
              characterCountNoSpaces = char_count_no_spaces,
              wordCount = word_count,
              lineCount = line_count,
              paragraphCount = paragraph_count,
              sentenceCount = sentence_count,
              averageWordLength = py_round avg_word_length 2,
              averageSentenceLength = py_round avg_sentence_length 2,
              readingTime = py_round minutes 1\<rparr>))))"

section \<open>Library behaviour taken as parameters\<close>

text \<open>
  The analyzer calls into the Unicode character database (\<open>str.lower\<close>, \<open>str.isupper\<close>,
  the classes \<open>\w\<close> and \<open>\d\<close>) and into \<open>urllib\<close>'s validation of a bracketed host.
  These tables are not part of the repository; every operation that reads one takes
  them as a parameter, and what is proved holds for every table.
\<close>

record runtime =
  str_lower :: "pystr \<Rightarrow> pystr"
  str_isupper :: "pystr \<Rightarrow> bool"
  cp_isalnum :: "codepoint \<Rightarrow> bool"
  cp_isdecimal :: "codepoint \<Rightarrow> bool"
  bracketed_host_ok :: "pystr \<Rightarrow> bool"

definition ascii_upper :: "codepoint \<Rightarrow> bool" where
  "ascii_upper c \<longleftrightarrow> 65 \<le> c \<and> c \<le> 90"

definition ascii_lower :: "codepoint \<Rightarrow> bool" where
  "ascii_lower c \<longleftrightarrow> 97 \<le> c \<and> c \<le> 122"

definition ascii_letter :: "codepoint \<Rightarrow> bool" where
  "ascii_letter c \<longleftrightarrow> ascii_upper c \<or> ascii_lower c"

definition ascii_digit :: "codepoint \<Rightarrow> bool" where
  "ascii_digit c \<longleftrightarrow> 48 \<le> c \<and> c \<le> 57"

definition to_ascii_lower :: "codepoint \<Rightarrow> codepoint" where
  "to_ascii_lower c = (if ascii_upper c then c + 32 else c)"

text \<open>
  A sample table for evaluating the operations on ASCII text. Its character tables agree
  with CPython there: only the letters \<open>A-Z\<close> and \<open>a-z\<close> are cased, and a string is
  upper-case when it has an upper-case letter and no lower-case one. Its check of a
  bracketed host accepts none, which is stricter than CPython (a host such as \<open>[::1]\<close>
  is valid there); the sample is evaluated only on text without a bracketed host.
\<close>

definition ascii_runtime :: runtime where
  "ascii_runtime =
     \<lparr>str_lower = map to_ascii_lower,
      str_isupper = (\<lambda>s. list_ex ascii_upper s \<and> \<not> list_ex ascii_lower s),
      cp_isalnum = (\<lambda>c. ascii_letter c \<or> ascii_digit c),
      cp_isdecimal = ascii_digit,
      bracketed_host_ok = (\<lambda>h. False)\<rparr>"

section \<open>Keywords\<close>

text \<open>A run of a fallible step over a list stops at the first error, as the exception would.\<close>

fun collect :: "('a \<Rightarrow> error + 'b) \<Rightarrow> 'a list \<Rightarrow> error + 'b list" where
  "collect f [] = Inr []"
| "collect f (x # xs) =
     and_then (f x) (\<lambda>y. and_then (collect f xs) (\<lambda>ys. Inr (y # ys)))"

text \<open>\<open>re.sub(r'[^\w\s]', ' ', s)\<close>; the class \<open>\w\<close> is the alphanumerics and the underscore.\<close>

definition word_char :: "runtime \<Rightarrow> codepoint \<Rightarrow> bool" where
  "word_char rt c \<longleftrightarrow> cp_isalnum rt c \<or> c = 95"

definition blank_punctuation :: "runtime \<Rightarrow> pystr \<Rightarrow> pystr" where
  "blank_punctuation rt s = map (\<lambda>c. if word_char rt c \<or> is_space c then c else 32) s"

definition stop_words :: "pystr set" where
  "stop_words = set (map lit
     [''the'', ''be'', ''to'', ''of'', ''and'', ''a'', ''in'', ''that'', ''have'', ''i'',
      ''it'', ''for'', ''not'', ''on'', ''with'', ''he'', ''as'', ''you'', ''do'', ''at'',
      ''this'', ''but'', ''his'', ''by'', ''from'', ''they'', ''we'', ''say'', ''her'', ''she'',
      ''or'', ''an'', ''will'', ''my'', ''one'', ''all'', ''would'', ''there'', ''their'',
      ''what'', ''so'', ''up'', ''out'', ''if'', ''about'', ''who'', ''get'', ''which'', ''go'',
      ''me'', ''when'', ''make'', ''can'', ''like'', ''time'', ''no'', ''just'', ''him'', ''know'',
      ''take'', ''people'', ''into'', ''year'', ''your'', ''good'', ''some'', ''could'', ''them'',
      ''see'', ''other'', ''than'', ''then'', ''now'', ''look'', ''only'', ''come'', ''its'', ''over'',
      ''think'', ''also'', ''back'', ''after'', ''use'', ''two'', ''how'', ''our'', ''work'',
      ''first'', ''well'', ''way'', ''even'', ''new'', ''want'', ''because'', ''any'', ''these'',
      ''give'', ''day'', ''most'', ''us'', ''is'', ''was'', ''are'', ''been'', ''has'', ''had'',
      ''were'', ''said'', ''did'', ''having'', ''may'', ''should''])"

text \<open>The retained tokens: the list \<open>keywords\<close> of the source.\<close>

definition retained_tokens :: "runtime \<Rightarrow> pystr \<Rightarrow> pystr list" where
  "retained_tokens rt s =
     (let clean_text = blank_punctuation rt (str_lower rt s);
          words = split_ws clean_text
      in filter (\<lambda>word. length word > 3 \<and> word \<notin> stop_words) words)"

text \<open>
  \<open>Counter(keywords)\<close>: a dictionary in insertion order, as an association list whose
  keys stand in order of first occurrence.
\<close>

fun counter_add :: "pystr \<Rightarrow> (pystr \<times> nat) list \<Rightarrow> (pystr \<times> nat) list" where
  "counter_add w [] = [(w, 1)]"
| "counter_add w ((k, n) # rest) =
     (if k = w then (k, Suc n) # rest else (k, n) # counter_add w rest)"

definition counter :: "pystr list \<Rightarrow> (pystr \<times> nat) list" where
  "counter ws = foldl (\<lambda>c w. counter_add w c) [] ws"

text \<open>
  \<open>most_common(n)\<close> is \<open>heapq.nlargest(n, items, key=count)\<close>: the first \<open>n\<close> entries of the
  stable sort by descending count, and no entry at all when \<open>n \<le> 0\<close>.
\<close>

definition most_common :: "int \<Rightarrow> (pystr \<times> nat) list \<Rightarrow> (pystr \<times> nat) list" where
  "most_common n c = take (nat n) (sort_key (\<lambda>(w, k). - int k) c)"

record keyword_entry =
  keyword :: pystr
  frequency :: nat
  relevance :: real

text \<open>The entry built for one counted word, when the division has gone through.\<close>

definition keyword_of :: "nat \<Rightarrow> pystr \<times> nat \<Rightarrow> keyword_entry" where
  "keyword_of len p =
     \<lparr>keyword = fst p, frequency = snd p,
      relevance = py_round (of_nat (snd p) / of_nat len * 100) 2\<rparr>"

definition extract_keywords :: "runtime \<Rightarrow> pystr \<Rightarrow> int \<Rightarrow> error + keyword_entry list" where
  "extract_keywords rt s top_n =
     (let keywords = retained_tokens rt s;
          word_freq = counter keywords;
          top_keywords = most_common top_n word_freq
      in collect (\<lambda>(word, count).
           and_then (truediv (of_nat count) (of_nat (length keywords))) (\<lambda>share.
           Inr \<lparr>keyword = word, frequency = count,
                relevance = py_round (share * 100) 2\<rparr>)) top_keywords)"

section \<open>Summary\<close>

text \<open>The sentences kept for the summary: trimmed pieces longer than 20 characters.\<close>

definition retained_sentences :: "pystr \<Rightarrow> pystr list" where
  "retained_sentences s =
     map strip (filter (\<lambda>x. length (strip x) > 20) (split_sentences s))"

fun py_join :: "pystr \<Rightarrow> pystr list \<Rightarrow> pystr" where
  "py_join sep [] = []"
| "py_join sep [x] = x"
| "py_join sep (x # y # ys) = x @ sep @ py_join sep (y # ys)"

text \<open>
  The scoring loop over \<open>enumerate(sentences[:50])\<close>, from index \<open>i\<close> on. The scores are
  exact reals; two sentences whose exact scores are equal can have doubles that differ
  in the last place, and then the code ranks them by that difference where the sort
  here keeps their order. Only the scoring branch of the summary reads the scores.
\<close>

fun score_sentences :: "nat \<Rightarrow> nat \<Rightarrow> pystr list \<Rightarrow> error + (real \<times> pystr) list" where
  "score_sentences len i [] = Inr []"
| "score_sentences len i (sentence # rest) =
     and_then (truediv (of_nat i) (of_nat len)) (\<lambda>position.
       let words = split_ws sentence;
           score = of_nat (length words) * (1 - position * (1 / 2))
       in and_then (score_sentences len (Suc i) rest) (\<lambda>scored.
            Inr ((score, sentence) # scored)))"

text \<open>The slice \<open>xs[:n]\<close>; a negative \<open>n\<close> counts from the end.\<close>

definition slice_to :: "int \<Rightarrow> 'a list \<Rightarrow> 'a list" where
  "slice_to n xs = (if 0 \<le> n then take (nat n) xs else take (length xs - nat (- n)) xs)"

text \<open>The last loop: the chosen sentences in original order, leaving at \<open>max_sentences\<close>.\<close>

fun pick_in_order :: "int \<Rightarrow> pystr list \<Rightarrow> pystr list \<Rightarrow> pystr list \<Rightarrow> pystr list" where
  "pick_in_order max_sentences chosen summary [] = summary"
| "pick_in_order max_sentences chosen summary (sentence # rest) =
     (if sentence \<in> set chosen
      then (let summary' = summary @ [sentence]
            in if int (length summary') \<ge> max_sentences then summary'
               else pick_in_order max_sentences chosen summary' rest)
      else pick_in_order max_sentences chosen summary rest)"

definition generate_summary :: "pystr \<Rightarrow> int \<Rightarrow> error + pystr" where
  "generate_summary s max_sentences =
     (let sentences = retained_sentences s
      in if int (length sentences) \<le> max_sentences
         then Inr (py_join (lit ''. '') sentences @ lit ''.'')
         else and_then (score_sentences (length sentences) 0
                          (take (min (length sentences) 50) sentences)) (\<lambda>scored_sentences.
              let ranked = sort_key (\<lambda>(score, sentence). - score) scored_sentences;
                  top_sentences = map snd (slice_to max_sentences ranked);
                  summary_sentences = pick_in_order max_sentences top_sentences [] sentences
              in Inr (py_join (lit ''. '') summary_sentences @ lit ''.'')))"

section \<open>Links\<close>

text \<open>
  One character of the URL body. The bracket expression \<open>[$-_@.&+]\<close> holds the range from
  \<open>$\<close> (36) to \<open>_\<close> (95); the last alternative of the pattern, a percent escape, starts with
  a character of that range, so an earlier alternative always takes it.
\<close>

definition url_char :: "codepoint \<Rightarrow> bool" where
  "url_char c \<longleftrightarrow>
     ascii_letter c \<or> ascii_digit c \<or>
     ((36 \<le> c \<and> c \<le> 95) \<or> c = 64 \<or> c = 46 \<or> c = 38 \<or> c = 43) \<or>
     (c = 33 \<or> c = 42 \<or> c = 92 \<or> c = 40 \<or> c = 41 \<or> c = 44)"

definition starts_with :: "pystr \<Rightarrow> pystr \<Rightarrow> bool" where
  "starts_with pre s \<longleftrightarrow> take (length pre) s = pre"

text \<open>After the head \<open>http\<close> or \<open>https\<close>: the separator and a non-empty greedy body.\<close>

definition match_url_tail :: "pystr \<Rightarrow> pystr \<Rightarrow> pystr option" where
  "match_url_tail head r =
     (if starts_with (lit ''://'') r
      then (let body = takeWhile url_char (drop 3 r)
            in if body = [] then None else Some (head @ lit ''://'' @ body))
      else None)"

text \<open>
  The match of \<open>http[s]?://(...)+\<close> at the start of \<open>s\<close>: the optional \<open>s\<close> is tried
  first, then the pattern without it.
\<close>

definition match_url :: "pystr \<Rightarrow> pystr option" where
  "match_url s =
     (if starts_with (lit ''http'') s
      then (let r = drop 4 s
            in case (if starts_with (lit ''s'') r then match_url_tail (lit ''https'') (drop 1 r)
                     else None) of
                 Some m \<Rightarrow> Some m
               | None \<Rightarrow> match_url_tail (lit ''http'') r)
      else None)"

text \<open>\<open>re.findall\<close>: the matches from left to right; the scan resumes after each match.\<close>

function findall_urls :: "pystr \<Rightarrow> pystr list" where
  "findall_urls [] = []"
| "findall_urls (c # cs) =
     (case match_url (c # cs) of
        Some m \<Rightarrow> m # findall_urls (drop (length m) (c # cs))
      | None \<Rightarrow> findall_urls cs)"
  by pat_completeness auto
termination
  by (relation "measure length")
     (auto simp: match_url_def match_url_tail_def Let_def split: if_splits option.splits)

text \<open>\<open>s.count(sub)\<close>: the occurrences of \<open>sub\<close> from left to right, without overlap.\<close>

function count_sub :: "pystr \<Rightarrow> pystr \<Rightarrow> nat" where
  "count_sub sub [] = (if sub = [] then 1 else 0)"
| "count_sub sub (c # cs) =
     (if sub = [] then Suc (count_sub sub cs)
      else if starts_with sub (c # cs)
           then Suc (count_sub sub (drop (length sub) (c # cs)))
           else count_sub sub cs)"
  by pat_completeness auto
termination
  by (relation "measure (\<lambda>(sub, s). length s)") auto

text \<open>
  \<open>urlparse\<close>, for what the link extractor reads of it (scheme and network location) and
  on the strings it is given: a match of the URL pattern is ASCII, starts with \<open>h\<close> and
  holds no control character or \<open>#\<close>, so the sanitising of the input and the check of a
  non-ASCII host do nothing. A host with an unmatched bracket is a \<open>ValueError\<close>.
\<close>

record parse_result =
  pr_scheme :: pystr
  pr_netloc :: pystr

definition scheme_char :: "codepoint \<Rightarrow> bool" where
  "scheme_char c \<longleftrightarrow> ascii_letter c \<or> ascii_digit c \<or> c = 43 \<or> c = 45 \<or> c = 46"

definition split_scheme :: "pystr \<Rightarrow> pystr \<times> pystr" where
  "split_scheme u =
     (let pre = takeWhile (\<lambda>c. c \<noteq> 58) u
      in if length pre < length u \<and> pre \<noteq> [] \<and> ascii_letter (hd pre) \<and> list_all scheme_char pre
         then (map to_ascii_lower pre, drop (Suc (length pre)) u)
         else ([], u))"

definition split_netloc :: "pystr \<Rightarrow> pystr" where
  "split_netloc r = takeWhile (\<lambda>c. c \<noteq> 47 \<and> c \<noteq> 63 \<and> c \<noteq> 35) r"

definition urlparse :: "runtime \<Rightarrow> pystr \<Rightarrow> error + parse_result" where
  "urlparse rt u =
     (let (sch, r) = split_scheme u;
          netloc = (if starts_with (lit ''//'') r then split_netloc (drop 2 r) else [])
      in if (91 \<in> set netloc \<and> 93 \<notin> set netloc) \<or> (93 \<in> set netloc \<and> 91 \<notin> set netloc)
         then Inl ValueError
         else if 91 \<in> set netloc \<and> 93 \<in> set netloc \<and> \<not> bracketed_host_ok rt netloc
         then Inl ValueError
         else Inr \<lparr>pr_scheme = sch, pr_netloc = netloc\<rparr>)"

record link =
  url :: pystr
  domain :: pystr
  scheme :: pystr
  count :: nat

text \<open>
  The iteration order of \<open>set(urls)\<close> is not defined by the language; the distinct URLs
  are enumerated here as \<open>remdups\<close> leaves them.
\<close>

definition extract_links :: "runtime \<Rightarrow> pystr \<Rightarrow> error + link list" where
  "extract_links rt s =
     (let urls = findall_urls s;
          unique_urls = remdups urls
      in collect (\<lambda>u.
           and_then (urlparse rt u) (\<lambda>parsed.
           Inr \<lparr>url = u, domain = pr_netloc parsed, scheme = pr_scheme parsed,
                count = count_sub u s\<rparr>)) unique_urls)"

section \<open>Language\<close>

definition english_words :: "pystr set" where
  "english_words = set (map lit
     [''the'', ''is'', ''and'', ''to'', ''of'', ''in'', ''that'', ''for''])"

definition spanish_words :: "pystr set" where
  "spanish_words = set (map lit
     [''el'', ''la'', ''de'', ''que'', ''y'', ''en'', ''es'', ''por''])"

text \<open>The third and the sixth French word are \<open>etre\<close> with a circumflex (U+00EA) and \<open>a\<close> with a grave (U+00E0).\<close>

definition french_words :: "pystr set" where
  "french_words =
     set (map lit [''le'', ''de'', ''un'', ''et'', ''il'', ''que'']) \<union>
     {[0xEA, 116, 114, 101], [0xE0]}"

definition german_words :: "pystr set" where
  "german_words = set (map lit
     [''der'', ''die'', ''und'', ''in'', ''den'', ''von'', ''zu'', ''das''])"

definition detect_language :: "runtime \<Rightarrow> pystr \<Rightarrow> pystr" where
  "detect_language rt s =
     (let words = set (split_ws (str_lower rt s));
          en_count = card (words \<inter> english_words);
          es_count = card (words \<inter> spanish_words);
          fr_count = card (words \<inter> french_words);
          de_count = card (words \<inter> german_words);
          max_count = max (max (max en_count es_count) fr_count) de_count
      in if max_count = 0 then lit ''unknown''
         else if max_count = en_count then lit ''en''
         else if max_count = es_count then lit ''es''
         else if max_count = fr_count then lit ''fr''
         else if max_count = de_count then lit ''de''
         else lit ''unknown'')"

text \<open>
  The heuristic in the words of the specification: the score of a language is the number
  of its words among the distinct lower-cased words of the text; the answer is the first
  language, in the order English, Spanish, French, German, whose score is the largest,
  and \<open>unknown\<close> when the largest score is zero.
\<close>

definition language_score :: "runtime \<Rightarrow> pystr \<Rightarrow> pystr set \<Rightarrow> nat" where
  "language_score rt s language_words =
     card (set (split_ws (str_lower rt s)) \<inter> language_words)"

definition language_scores :: "runtime \<Rightarrow> pystr \<Rightarrow> (pystr \<times> nat) list" where
  "language_scores rt s =
     [(lit ''en'', language_score rt s english_words),
      (lit ''es'', language_score rt s spanish_words),
      (lit ''fr'', language_score rt s french_words),
      (lit ''de'', language_score rt s german_words)]"

definition best_language :: "runtime \<Rightarrow> pystr \<Rightarrow> pystr" where
  "best_language rt s =
     (let scores = language_scores rt s;
          largest = Max (set (map snd scores))
      in if largest = 0 then lit ''unknown''
         else (case find (\<lambda>entry. snd entry = largest) scores of
                 Some entry \<Rightarrow> fst entry
               | None \<Rightarrow> lit ''unknown''))"

section \<open>Structure\<close>

record heading =
  heading_text :: pystr
  heading_position :: nat
  heading_level :: nat

record list_item =
  item_text :: pystr
  item_position :: nat
  item_type :: pystr

record structure_report =
  headings :: "heading list"
  listItems :: "list_item list"
  hasStructure :: bool

definition guess_heading_level :: "runtime \<Rightarrow> pystr \<Rightarrow> nat" where
  "guess_heading_level rt s =
     (if str_isupper rt s then 1
      else if length (split_ws s) \<le> 5 then 2
      else 3)"

text \<open>The first loop over \<open>enumerate(lines)\<close>; \<open>lines\<close> is the whole list, for the look ahead.\<close>

fun heading_loop :: "runtime \<Rightarrow> pystr list \<Rightarrow> (nat \<times> pystr) list \<Rightarrow> heading list \<Rightarrow> heading list" where
  "heading_loop rt lines [] potential_headings = potential_headings"
| "heading_loop rt lines ((i, line) # rest) potential_headings =
     (let line_stripped = strip line
      in if 3 < length (split_ws line_stripped) \<and> length (split_ws line_stripped) \<le> 10
         then (if i + 1 < length lines \<and> length (split_ws (strip (lines ! (i + 1)))) > 10
               then heading_loop rt lines rest
                      (potential_headings @
                       [\<lparr>heading_text = line_stripped, heading_position = i,
                         heading_level = guess_heading_level rt line_stripped\<rparr>])
               else heading_loop rt lines rest potential_headings)
         else heading_loop rt lines rest potential_headings)"

text \<open>
  The three list patterns, matched at the start of a line: leading whitespace, the
  marker, then at least one whitespace character. No marker starts with whitespace,
  and the closing \<open>.\<close> or \<open>)\<close> is not a digit of the character database, so the
  greedy match is the only one.
\<close>

definition followed_by_space :: "pystr \<Rightarrow> bool" where
  "followed_by_space r \<longleftrightarrow> (case r of [] \<Rightarrow> False | c # _ \<Rightarrow> is_space c)"

definition match_bullet :: "pystr \<Rightarrow> bool" where
  "match_bullet line \<longleftrightarrow>
     (case dropWhile is_space line of
        [] \<Rightarrow> False
      | c # r \<Rightarrow> (c = 45 \<or> c = 42 \<or> c = 0x2022) \<and> followed_by_space r)"

definition match_numbered :: "runtime \<Rightarrow> pystr \<Rightarrow> bool" where
  "match_numbered rt line \<longleftrightarrow>
     (let r = dropWhile is_space line;
          digits = takeWhile (cp_isdecimal rt) r
      in digits \<noteq> [] \<and>
         (case dropWhile (cp_isdecimal rt) r of
            [] \<Rightarrow> False
          | c # r' \<Rightarrow> (c = 46 \<or> c = 41) \<and> followed_by_space r'))"

definition match_lettered :: "pystr \<Rightarrow> bool" where
  "match_lettered line \<longleftrightarrow>
     (case dropWhile is_space line of
        c # d # r \<Rightarrow> ascii_lower c \<and> (d = 46 \<or> d = 41) \<and> followed_by_space r
      | _ \<Rightarrow> False)"

fun list_item_loop :: "runtime \<Rightarrow> (nat \<times> pystr) list \<Rightarrow> list_item list \<Rightarrow> list_item list" where
  "list_item_loop rt [] list_items = list_items"
| "list_item_loop rt ((i, line) # rest) list_items =
     (if match_bullet line
      then list_item_loop rt rest
             (list_items @ [\<lparr>item_text = strip line, item_position = i, item_type = lit ''bullet''\<rparr>])
      else if match_numbered rt line \<or> match_lettered line
      then list_item_loop rt rest
             (list_items @ [\<lparr>item_text = strip line, item_position = i, item_type = lit ''numbered''\<rparr>])
      else list_item_loop rt rest list_items)"

definition analyze_structure :: "runtime \<Rightarrow> pystr \<Rightarrow> structure_report" where
  "analyze_structure rt s =
     (let lines = split_char 10 s;
          potential_headings = heading_loop rt lines (enumerate 0 lines) [];
          list_items = list_item_loop rt (enumerate 0 lines) []
      in \<lparr>headings = potential_headings,
          listItems = list_items,
          hasStructure = (length potential_headings > 0 \<or> length list_items > 0)\<rparr>)"

text \<open>
  The headings in the words of the specification: the line at index \<open>i\<close> is a candidate
  when it has more than 3 and at most 10 words and the line after it exists and has
  more than 10 words; its level is 1 for an upper-case line, else 2 for at most 5 words,
  else 3.
\<close>

definition word_count :: "pystr \<Rightarrow> nat" where
  "word_count line = length (split_ws (strip line))"

definition heading_candidate :: "pystr list \<Rightarrow> nat \<Rightarrow> bool" where
  "heading_candidate lines i \<longleftrightarrow>
     3 < word_count (lines ! i) \<and> word_count (lines ! i) \<le> 10 \<and>
     Suc i < length lines \<and> 10 < word_count (lines ! Suc i)"

definition heading_at :: "runtime \<Rightarrow> pystr list \<Rightarrow> nat \<Rightarrow> heading" where
  "heading_at rt lines i =
     \<lparr>heading_text = strip (lines ! i), heading_position = i,
      heading_level =
        (if str_isupper rt (strip (lines ! i)) then 1
         else if word_count (lines ! i) \<le> 5 then 2 else 3)\<rparr>"

section \<open>The analysis pipeline\<close>








section \<open>Tables\<close>

text \<open>
  The document tree is the nested mapping of the document service. Each level is modelled
  with the keys the extractor reads, and a key that may be absent is an \<open>option\<close>; the
  other keys of a level play no part.
\<close>

datatype text_run = TextRun (run_content: "pystr option")

datatype paragraph_element = ParagraphElement (textRun: "text_run option")

datatype paragraph_block = Paragraph (elements: "paragraph_element list option")

datatype cell_content = CellContent (cell_paragraph: "paragraph_block option")

datatype table_cell = TableCell (cell_contents: "cell_content list option")

datatype table_row = TableRow (tableCells: "table_cell list option")

datatype table = Table (tableRows: "table_row list option")

datatype body_element = BodyElement (table: "table option")

datatype body = Body (body_content: "body_element list option")

datatype document = Document (body: "body option")

record table_data =
  rows :: nat
  columns :: nat
  data :: "pystr list list"

text \<open>\<open>d.get(key, [])\<close>\<close>

definition get_or_empty :: "'a list option \<Rightarrow> 'a list" where
  "get_or_empty v = (case v of None \<Rightarrow> [] | Some xs \<Rightarrow> xs)"

text \<open>\<open>d[key]\<close>\<close>

definition subscript :: "'a option \<Rightarrow> error + 'a" where
  "subscript v = (case v of None \<Rightarrow> Inl KeyError | Some x \<Rightarrow> Inr x)"

text \<open>The text runs of one paragraph element, of one cell content, of one cell.\<close>

definition element_runs :: "paragraph_element \<Rightarrow> error + pystr list" where
  "element_runs element =
     (case textRun element of
        None \<Rightarrow> Inr []
      | Some run \<Rightarrow> and_then (subscript (run_content run)) (\<lambda>c. Inr [c]))"

definition content_runs :: "cell_content \<Rightarrow> error + pystr list" where
  "content_runs content =
     (case cell_paragraph content of
        None \<Rightarrow> Inr []
      | Some par \<Rightarrow>
          and_then (collect element_runs (get_or_empty (elements par))) (\<lambda>runs.
          Inr (concat runs)))"

definition cell_string :: "table_cell \<Rightarrow> error + pystr" where
  "cell_string cell =
     and_then (collect content_runs (get_or_empty (cell_contents cell))) (\<lambda>runs.
     let cell_text = concat runs in Inr (strip (concat cell_text)))"

definition parse_table :: "table \<Rightarrow> error + table_data" where
  "parse_table table_element =
     and_then (collect (\<lambda>row. collect cell_string (get_or_empty (tableCells row)))
                 (get_or_empty (tableRows table_element))) (\<lambda>rws.
     Inr \<lparr>rows = length rws,
          columns = (if rws \<noteq> [] then length (hd rws) else 0),
          data = rws\<rparr>)"

definition table_of_element :: "body_element \<Rightarrow> error + table_data list" where
  "table_of_element element =
     (case table element of
        None \<Rightarrow> Inr []
      | Some t \<Rightarrow> and_then (parse_table t) (\<lambda>table_data. Inr [table_data]))"

definition extract_tables :: "document \<Rightarrow> error + table_data list" where
  "extract_tables document_data =
     (case body document_data of
        None \<Rightarrow> Inr []
      | Some b \<Rightarrow>
          (case body_content b of
             None \<Rightarrow> Inr []
           | Some content \<Rightarrow>
               and_then (collect table_of_element content) (\<lambda>tables. Inr (concat tables))))"

section \<open>Properties of the statistics\<close>

lemmas eval_defs = strip_def split_ws_def split_char_def split_blank_def split_sentences_def
  remove_char_def truediv_def py_round_def round_half_even_def lit_def is_space_def
  sentence_end_def

lemma strip_pad:
  assumes l: "\<forall>c\<in>set l. is_space c" and r: "\<forall>c\<in>set r. is_space c"
  shows "strip (l @ s @ r) = strip s"
proof (cases "\<forall>c\<in>set s. is_space c")
  case True
  with l r have a: "dropWhile is_space (l @ s @ r) = []" and b: "dropWhile is_space s = []"
    by auto
  show ?thesis unfolding strip_def a b by (rule refl)
next
  case False
  then obtain x where x: "x \<in> set s" "\<not> is_space x" by blast
  have a: "dropWhile is_space (l @ s @ r) = dropWhile is_space s @ r"
  proof -
    have "dropWhile is_space (l @ s @ r) = dropWhile is_space (s @ r)"
      by (rule dropWhile_append2) (use l in auto)
    also have "\<dots> = dropWhile is_space s @ r"
      using x by (rule dropWhile_append1)
    finally show ?thesis .
  qed
  have "dropWhile is_space (rev r @ rev (dropWhile is_space s))
        = dropWhile is_space (rev (dropWhile is_space s))"
    by (rule dropWhile_append2) (use r in auto)
  with a show ?thesis by (simp add: strip_def)
qed

lemma strip_snoc_space: "is_space c \<Longrightarrow> strip (s @ [c]) = strip s"
  using strip_pad [of "[]" "[c]" s] by simp

lemma length_split_char_acc:
  "length (split_char_acc sep cur s) = Suc (count_list s sep)"
  by (induction s arbitrary: cur) auto

lemma calculate_statistics_ok: "\<exists>st. calculate_statistics s = Inr st"
  by (simp add: calculate_statistics_def Let_def truediv_def)

text \<open>
  Claim C1, as stated: on the empty string every statistic and the reading time are 0.
  It fails on the line count: the statistics with every field 0 are not what the
  calculator returns for the empty string.
\<close>

theorem statistics_empty_not_all_zero:
  "calculate_statistics [] \<noteq>
     Inr \<lparr>characterCount = 0, characterCountNoSpaces = 0, wordCount = 0, lineCount = 0,
          paragraphCount = 0, sentenceCount = 0, averageWordLength = 0,
          averageSentenceLength = 0, readingTime = 0\<rparr>"
  by (simp add: calculate_statistics_def eval_defs)

text \<open>
  Claim C1, amended: on the empty string the calculator does not fail and every statistic
  and the reading time are 0, except the line count, which is 1 (splitting the empty
  string at line feeds leaves one empty line).
\<close>

theorem statistics_empty:
  "calculate_statistics [] =
     Inr \<lparr>characterCount = 0, characterCountNoSpaces = 0, wordCount = 0, lineCount = 1,
          paragraphCount = 0, sentenceCount = 0, averageWordLength = 0,
          averageSentenceLength = 0, readingTime = 0\<rparr>"
  by (simp add: calculate_statistics_def eval_defs)

text \<open>
  Claim C9, as stated: a trailing line feed adds an empty line to the line count, so
  appending a line feed raises the count by one. It fails: the text \<open>a\<close> followed by a
  line feed has line count 1, as the text \<open>a\<close> has.
\<close>

theorem trailing_newline_not_counted:
  "calculate_statistics (lit ''a'' @ [10]) =
     Inr \<lparr>characterCount = 1, characterCountNoSpaces = 1, wordCount = 1, lineCount = 1,
          paragraphCount = 1, sentenceCount = 1, averageWordLength = 1,
          averageSentenceLength = 1, readingTime = 0\<rparr> \<and>
   calculate_statistics (lit ''a'') =
     Inr \<lparr>characterCount = 1, characterCountNoSpaces = 1, wordCount = 1, lineCount = 1,
          paragraphCount = 1, sentenceCount = 1, averageWordLength = 1,
          averageSentenceLength = 1, readingTime = 0\<rparr>"
  by (simp add: calculate_statistics_def eval_defs)

text \<open>
  Claim C9, amended: the lines are the pieces of the trimmed text between line feeds, so
  the line count is one more than the number of line feeds in the trimmed text; a
  trailing line feed of the input is trimmed away first, and appending a line feed to a
  text leaves its line count as it was.
\<close>

theorem line_count_trimmed:
  "\<exists>st st'. calculate_statistics s = Inr st \<and> calculate_statistics (s @ [10]) = Inr st' \<and>
     lineCount st = Suc (count_list (strip s) 10) \<and> lineCount st' = lineCount st"
proof -
  have sp: "is_space 10" by (simp add: is_space_def)
  obtain st where st: "calculate_statistics s = Inr st"
    using calculate_statistics_ok by blast
  have same: "calculate_statistics (s @ [10]) = calculate_statistics s"
    by (simp add: calculate_statistics_def strip_snoc_space [OF sp])
  have "lineCount st = Suc (count_list (strip s) 10)"
    using st
    by (auto simp: calculate_statistics_def Let_def truediv_def split_char_def
        length_split_char_acc split: if_splits)
  with st same show ?thesis by simp
qed

text \<open>
  Claim C10: padding a text with whitespace in front and behind changes no statistic; the
  calculator returns the same result for the padded and the unpadded text.
\<close>

theorem statistics_padding:
  "\<forall>c\<in>set l. is_space c \<Longrightarrow> \<forall>c\<in>set r. is_space c \<Longrightarrow>
     calculate_statistics (l @ s @ r) = calculate_statistics s"
  by (simp add: calculate_statistics_def strip_pad)

theorem statistics_padding_witness:
  "list_all is_space [32, 10, 9] \<and> list_all is_space [13, 32, 10] \<and>
   calculate_statistics ([32, 10, 9] @ lit ''Hi there. Bye'' @ [13, 32, 10]) =
     calculate_statistics (lit ''Hi there. Bye'') \<and>
   calculate_statistics (lit ''Hi there. Bye'') =
     Inr \<lparr>characterCount = 13, characterCountNoSpaces = 11, wordCount = 3, lineCount = 1,
          paragraphCount = 1, sentenceCount = 2, averageWordLength = 367 / 100,
          averageSentenceLength = 3 / 2, readingTime = 0\<rparr>"
proof -
  have l: "\<forall>c\<in>set [32, 10, 9]. is_space c" and r: "\<forall>c\<in>set [13, 32, 10]. is_space c"
    by (simp_all add: is_space_def)
  have v: "calculate_statistics (lit ''Hi there. Bye'') =
     Inr \<lparr>characterCount = 13, characterCountNoSpaces = 11, wordCount = 3, lineCount = 1,
          paragraphCount = 1, sentenceCount = 2, averageWordLength = 367 / 100,
          averageSentenceLength = 3 / 2, readingTime = 0\<rparr>"
    by (simp add: calculate_statistics_def eval_defs)
  show ?thesis
    using statistics_padding [OF l r, of "lit ''Hi there. Bye''"] l r v
    by (simp add: list_all_iff)
qed

section \<open>Properties of the keyword extraction\<close>

lemma round_half_even_bounds:
  assumes "of_int a \<le> x" and "x \<le> of_int b"
  shows "a \<le> round_half_even x \<and> round_half_even x \<le> b"
proof -
  have lo: "a \<le> \<lfloor>x\<rfloor>" using assms(1) by (simp add: le_floor_iff)
  have hi: "\<lfloor>x\<rfloor> \<le> b" using assms(2) by (simp add: floor_le_iff)
  have up: "\<lfloor>x\<rfloor> + 1 \<le> b" if "1 / 2 \<le> x - of_int \<lfloor>x\<rfloor>"
  proof -
    have "of_int \<lfloor>x\<rfloor> < x" using that by linarith
    then have "of_int \<lfloor>x\<rfloor> < (of_int b :: real)" using assms(2) by linarith
    then show ?thesis by simp
  qed
  show ?thesis
    using lo hi up by (auto simp: round_half_even_def Let_def)
qed

lemma py_round_percent:
  assumes "0 \<le> x" and "x \<le> 100"
  shows "0 \<le> py_round x 2 \<and> py_round x 2 \<le> 100"
proof -
  have "of_int 0 \<le> x * 10 ^ 2" "x * 10 ^ 2 \<le> of_int 10000"
    using assms by simp_all
  from round_half_even_bounds [OF this]
  have "0 \<le> round_half_even (x * 10 ^ 2)" "round_half_even (x * 10 ^ 2) \<le> 10000"
    by simp_all
  then show ?thesis by (simp add: py_round_def)
qed

lemma collect_total:
  assumes "\<And>x. x \<in> set xs \<Longrightarrow> f x = Inr (g x)"
  shows "collect f xs = Inr (map g xs)"
  using assms by (induction xs) simp_all

lemma counter_add_keys: "set (map fst (counter_add w c)) = insert w (set (map fst c))"
  by (induction w c rule: counter_add.induct) auto

lemma counter_add_distinct: "distinct (map fst c) \<Longrightarrow> distinct (map fst (counter_add w c))"
proof (induction c)
  case Nil
  then show ?case by simp
next
  case (Cons p c)
  obtain k n where p: "p = (k, n)" by (cases p)
  from Cons have "distinct (map fst (counter_add w c))" "k \<notin> set (map fst c)"
    by (simp_all add: p)
  then show ?case
    using Cons.prems by (auto simp: p counter_add_keys simp del: set_map)
qed

lemma counter_add_sum: "sum_list (map snd (counter_add w c)) = Suc (sum_list (map snd c))"
  by (induction w c rule: counter_add.induct) auto

lemma counter_add_pos: "\<forall>p\<in>set c. 0 < snd p \<Longrightarrow> \<forall>p\<in>set (counter_add w c). 0 < snd p"
  by (induction w c rule: counter_add.induct) auto

lemma counter_fold:
  assumes "distinct (map fst c)" and "\<forall>p\<in>set c. 0 < snd p"
  shows "distinct (map fst (foldl (\<lambda>c w. counter_add w c) c ws)) \<and>
         set (map fst (foldl (\<lambda>c w. counter_add w c) c ws)) = set (map fst c) \<union> set ws \<and>
         sum_list (map snd (foldl (\<lambda>c w. counter_add w c) c ws)) =
           sum_list (map snd c) + length ws \<and>
         (\<forall>p\<in>set (foldl (\<lambda>c w. counter_add w c) c ws). 0 < snd p)"
  using assms
proof (induction ws arbitrary: c)
  case Nil
  then show ?case by simp
next
  case (Cons w ws)
  have "distinct (map fst (counter_add w c))" "\<forall>p\<in>set (counter_add w c). 0 < snd p"
    using Cons.prems by (simp_all add: counter_add_distinct counter_add_pos)
  from Cons.IH [OF this] show ?case
    by (simp add: counter_add_keys counter_add_sum del: set_map)
qed

lemma counter_props:
  "distinct (map fst (counter ws))"
  "set (map fst (counter ws)) = set ws"
  "sum_list (map snd (counter ws)) = length ws"
  "\<forall>p\<in>set (counter ws). 0 < snd p"
  using counter_fold [of "[]" ws] by (simp_all add: counter_def)

lemma length_counter: "length (counter ws) = card (set ws)"
proof -
  have "card (set ws) = card (set (map fst (counter ws)))"
    by (simp only: counter_props(2))
  also have "\<dots> = length (map fst (counter ws))"
    by (rule distinct_card) (rule counter_props(1))
  finally show ?thesis by simp
qed

lemma counter_count_le: "(w, k) \<in> set (counter ws) \<Longrightarrow> 0 < k \<and> k \<le> length ws"
proof -
  assume m: "(w, k) \<in> set (counter ws)"
  then have "k \<in> set (map snd (counter ws))" by force
  then have "k \<le> sum_list (map snd (counter ws))" by (simp add: member_le_sum_list)
  moreover have "0 < k" using counter_props(4) m by fastforce
  ultimately show ?thesis by (simp add: counter_props(3))
qed

lemma most_common_subset: "set (most_common n c) \<subseteq> set c"
  using set_take_subset [of "nat n" "sort_key (\<lambda>(w, k). - int k) c"]
  by (simp add: most_common_def)

lemma length_most_common: "length (most_common n c) = min (nat n) (length c)"
  by (simp add: most_common_def min.commute)

lemma extract_keywords_eq:
  "extract_keywords rt s top_n =
     Inr (map (keyword_of (length (retained_tokens rt s)))
            (most_common top_n (counter (retained_tokens rt s))))"
proof -
  let ?toks = "retained_tokens rt s"
  have "collect (\<lambda>(word, n).
           and_then (truediv (of_nat n) (of_nat (length ?toks))) (\<lambda>share.
           Inr \<lparr>keyword = word, frequency = n,
                relevance = py_round (share * 100) 2\<rparr>)) (most_common top_n (counter ?toks))
        = Inr (map (keyword_of (length ?toks)) (most_common top_n (counter ?toks)))"
  proof (rule collect_total)
    fix x assume "x \<in> set (most_common top_n (counter ?toks))"
    then have x: "x \<in> set (counter ?toks)" using most_common_subset by blast
    obtain w k where p: "x = (w, k)" by (cases x)
    from x p counter_count_le have "0 < length ?toks" by fastforce
    then show "(case x of (word, n) \<Rightarrow>
           and_then (truediv (of_nat n) (of_nat (length ?toks))) (\<lambda>share.
           Inr \<lparr>keyword = word, frequency = n,
                relevance = py_round (share * 100) 2\<rparr>)) = Inr (keyword_of (length ?toks) x)"
      by (simp add: p truediv_def keyword_of_def)
  qed
  then show ?thesis by (simp add: extract_keywords_def Let_def)
qed

lemma keyword_relevance_range:
  assumes "p \<in> set (counter ws)"
  shows "0 \<le> relevance (keyword_of (length ws) p) \<and> relevance (keyword_of (length ws) p) \<le> 100"
proof -
  obtain w k where p: "p = (w, k)" by (cases p)
  from assms p counter_count_le have k: "0 < k" "k \<le> length ws" by auto
  then have "real k / real (length ws) \<le> 1" by (simp add: divide_le_eq_1)
  then have "real k / real (length ws) * 100 \<le> 1 * 100"
    by (rule mult_right_mono) simp
  then have "0 \<le> real k / real (length ws) * 100" "real k / real (length ws) * 100 \<le> 100"
    by simp_all
  from py_round_percent [OF this] show ?thesis by (simp add: keyword_of_def p)
qed

lemmas runtime_defs = ascii_runtime_def to_ascii_lower_def ascii_upper_def ascii_lower_def
  ascii_letter_def ascii_digit_def

lemma retained_tokens_example: "retained_tokens ascii_runtime (lit ''Python code; python CODE is nice? The python'')
   = map lit [''python'', ''code'', ''python'', ''code'', ''nice'', ''python'']"
  by (simp add: retained_tokens_def blank_punctuation_def word_char_def stop_words_def
      runtime_defs eval_defs)

text \<open>
  The bounds for an integer top-N of either sign: \<open>most_common\<close> returns nothing for a
  top-N that is not positive.
\<close>

lemma extract_keywords_bounds:
  "\<exists>ks. extract_keywords rt s top_n = Inr ks \<and>
        int (length ks) \<le> max 0 top_n \<and>
        length ks \<le> card (set (retained_tokens rt s)) \<and>
        (\<forall>k\<in>set ks. 0 \<le> relevance k \<and> relevance k \<le> 100)"
proof -
  let ?toks = "retained_tokens rt s"
  let ?top = "most_common top_n (counter ?toks)"
  have "\<forall>k\<in>set (map (keyword_of (length ?toks)) ?top). 0 \<le> relevance k \<and> relevance k \<le> 100"
    using most_common_subset [of top_n "counter ?toks"] keyword_relevance_range [of _ ?toks]
    by auto
  moreover have "int (length ?top) \<le> max 0 top_n"
    by (simp add: length_most_common)
  moreover have "length ?top \<le> card (set ?toks)"
    by (simp add: length_most_common length_counter)
  ultimately show ?thesis
    by (simp add: extract_keywords_eq)
qed

text \<open>
  Claim C5: for every text and every top-N, which is a number of keywords and so not
  negative, keyword extraction returns a sequence whose length is at most top-N and at
  most the number of distinct retained tokens; the relevance of each entry lies between
  0 and 100; when no token is retained the result is the empty sequence, with no
  division by zero.
\<close>

theorem extract_keywords_top_n:
  "0 \<le> top_n \<Longrightarrow>
     \<exists>ks. extract_keywords rt s top_n = Inr ks \<and>
          int (length ks) \<le> top_n \<and>
          length ks \<le> card (set (retained_tokens rt s)) \<and>
          (\<forall>k\<in>set ks. 0 \<le> relevance k \<and> relevance k \<le> 100) \<and>
          (retained_tokens rt s = [] \<longrightarrow> ks = [])"
proof -
  assume n: "0 \<le> top_n"
  from extract_keywords_bounds [of rt s top_n] obtain ks
    where ks: "extract_keywords rt s top_n = Inr ks" "int (length ks) \<le> max 0 top_n"
      "length ks \<le> card (set (retained_tokens rt s))"
      "\<forall>k\<in>set ks. 0 \<le> relevance k \<and> relevance k \<le> 100"
    by blast
  from ks(3) have "retained_tokens rt s = [] \<longrightarrow> ks = []" by auto
  with ks n show ?thesis by auto
qed

lemma retained_tokens_none:
  "retained_tokens ascii_runtime (lit ''What about this?'') = []"
  by (simp add: retained_tokens_def blank_punctuation_def word_char_def stop_words_def
      runtime_defs eval_defs)

theorem extract_keywords_top_n_witness:
  "extract_keywords ascii_runtime (lit ''Python code; python CODE is nice? The python'') 2 =
     Inr [\<lparr>keyword = lit ''python'', frequency = 3, relevance = 50\<rparr>,
          \<lparr>keyword = lit ''code'', frequency = 2, relevance = 3333 / 100\<rparr>] \<and>
   card (set (retained_tokens ascii_runtime
     (lit ''Python code; python CODE is nice? The python''))) = 3 \<and>
   retained_tokens ascii_runtime (lit ''What about this?'') = [] \<and>
   extract_keywords ascii_runtime (lit ''What about this?'') 20 = Inr []"
proof -
  have v: "extract_keywords ascii_runtime (lit ''Python code; python CODE is nice? The python'') 2 =
     Inr [\<lparr>keyword = lit ''python'', frequency = 3, relevance = 50\<rparr>,
          \<lparr>keyword = lit ''code'', frequency = 2, relevance = 3333 / 100\<rparr>]"
    unfolding extract_keywords_eq retained_tokens_example
    by (simp add: counter_def most_common_def keyword_of_def py_round_def
        round_half_even_def lit_def)
  have c: "card (set (retained_tokens ascii_runtime
     (lit ''Python code; python CODE is nice? The python''))) = 3"
    unfolding retained_tokens_example card_set by (simp add: lit_def)
  have two: "(0::int) \<le> 2" and twenty: "(0::int) \<le> 20" by simp_all
  from extract_keywords_top_n [OF twenty, of ascii_runtime "lit ''What about this?''"]
    retained_tokens_none
  have none: "extract_keywords ascii_runtime (lit ''What about this?'') 20 = Inr []"
    by auto
  show ?thesis
    using extract_keywords_top_n
      [OF two, of ascii_runtime "lit ''Python code; python CODE is nice? The python''"]
      v c none retained_tokens_none
    by blast
qed

section \<open>Properties of the summary\<close>






text \<open>
  Claim C4: when the number of retained sentences (the trimmed pieces between runs of
  \<open>.\<close>, \<open>!\<close> and \<open>?\<close> that are longer than 20 characters) is at most the maximum, the
  summary is all of them in their order, joined by a period and a space, with one
  period at the end; nothing is scored.
\<close>

theorem summary_short:
  "int (length (retained_sentences s)) \<le> max_sentences \<Longrightarrow>
     generate_summary s max_sentences =
       Inr (py_join (lit ''. '') (retained_sentences s) @ lit ''.'')"
  by (simp add: generate_summary_def)

lemma retained_example:
  "retained_sentences (lit ''Hello world. This is a test sentence for summarization today! Is the last one of them long enough?'')
   = [lit ''This is a test sentence for summarization today'',
      lit ''Is the last one of them long enough'']"
  by (simp add: retained_sentences_def eval_defs)

theorem summary_short_witness:
  "int (length (retained_sentences (lit ''Hello world. This is a test sentence for summarization today! Is the last one of them long enough?''))) = 2 \<and>
   generate_summary (lit ''Hello world. This is a test sentence for summarization today! Is the last one of them long enough?'') 5 =
     Inr (lit ''This is a test sentence for summarization today. Is the last one of them long enough.'')"
proof -
  let ?s = "lit ''Hello world. This is a test sentence for summarization today! Is the last one of them long enough?''"
  have n: "int (length (retained_sentences ?s)) = 2"
    unfolding retained_example by simp
  then have le: "int (length (retained_sentences ?s)) \<le> 5" by simp
  have "py_join (lit ''. '') (retained_sentences ?s) @ lit ''.'' =
      lit ''This is a test sentence for summarization today. Is the last one of them long enough.''"
    unfolding retained_example by (simp add: lit_def)
  with summary_short [OF le] n show ?thesis by simp
qed

section \<open>Properties of the link extraction\<close>

lemmas link_defs = extract_links_def urlparse_def split_scheme_def split_netloc_def
  scheme_char_def match_url_def match_url_tail_def starts_with_def url_char_def
  to_ascii_lower_def ascii_upper_def ascii_lower_def ascii_letter_def ascii_digit_def

text \<open>
  Claim C6: on the text \<open>Visit http://example.com and http://example.com again\<close> the
  link extraction returns exactly one entry, with occurrence count 2, domain
  \<open>example.com\<close> and scheme \<open>http\<close>.
\<close>

theorem extract_links_example:
  "extract_links rt (lit ''Visit http://example.com and http://example.com again'') =
     Inr [\<lparr>url = lit ''http://example.com'', domain = lit ''example.com'',
           scheme = lit ''http'', count = 2\<rparr>]"
  by (simp add: link_defs lit_def)

text \<open>
  A URL whose host holds an opening bracket alone makes the extraction fail: the pattern
  accepts the bracket, and the URL parser rejects it.
\<close>

lemma extract_links_unmatched_bracket:
  "extract_links rt (lit ''see http://['') = Inl ValueError"
  by (simp add: link_defs lit_def)







section \<open>Properties of the pipeline\<close>







section \<open>Properties of the language heuristic\<close>

lemma language_sets_card:
  "card english_words = 8" "card spanish_words = 8" "card french_words = 8"
  "card german_words = 8"
proof -
  show "card english_words = 8"
    unfolding english_words_def card_set by (simp add: lit_def)
  show "card spanish_words = 8"
    unfolding spanish_words_def card_set by (simp add: lit_def)
  show "card german_words = 8"
    unfolding german_words_def card_set by (simp add: lit_def)
  have fw: "french_words = set (map lit [''le'', ''de'', ''un'', ''et'', ''il'', ''que'']
      @ [ [0xEA, 116, 114, 101], [0xE0] ])"
    by (auto simp: french_words_def)
  show "card french_words = 8"
    unfolding fw card_set by (simp add: lit_def)
qed

text \<open>
  Claim C7: the heuristic returns the language with the largest number of its words among
  the distinct lower-cased words of the text, the first in the order English, Spanish,
  French, German on a tie; it returns \<open>unknown\<close> exactly when every score is zero; each
  of the four word sets has 8 words.
\<close>

theorem detect_language_best:
  "detect_language rt s = best_language rt s \<and>
   (detect_language rt s = lit ''unknown'') =
     (language_score rt s english_words = 0 \<and> language_score rt s spanish_words = 0 \<and>
      language_score rt s french_words = 0 \<and> language_score rt s german_words = 0) \<and>
   card english_words = 8 \<and> card spanish_words = 8 \<and> card french_words = 8 \<and>
   card german_words = 8"
proof -
  define en where "en = language_score rt s english_words"
  define es where "es = language_score rt s spanish_words"
  define fr where "fr = language_score rt s french_words"
  define de where "de = language_score rt s german_words"
  have names: "lit ''en'' \<noteq> lit ''unknown''" "lit ''es'' \<noteq> lit ''unknown''"
    "lit ''fr'' \<noteq> lit ''unknown''" "lit ''de'' \<noteq> lit ''unknown''"
    by (simp_all add: lit_def)
  have d: "detect_language rt s =
      (if max (max (max en es) fr) de = 0 then lit ''unknown''
       else if max (max (max en es) fr) de = en then lit ''en''
       else if max (max (max en es) fr) de = es then lit ''es''
       else if max (max (max en es) fr) de = fr then lit ''fr''
       else if max (max (max en es) fr) de = de then lit ''de''
       else lit ''unknown'')"
    by (simp add: detect_language_def Let_def language_score_def en_def es_def fr_def de_def)
  have b: "best_language rt s =
      (if max (max (max en es) fr) de = 0 then lit ''unknown''
       else (case find (\<lambda>entry. snd entry = max (max (max en es) fr) de)
                    [(lit ''en'', en), (lit ''es'', es), (lit ''fr'', fr), (lit ''de'', de)] of
               Some entry \<Rightarrow> fst entry | None \<Rightarrow> lit ''unknown''))"
    by (simp add: best_language_def language_scores_def Let_def en_def es_def fr_def de_def
        max.commute max.left_commute)
  have "detect_language rt s = best_language rt s"
    unfolding d b by auto
  moreover have "(detect_language rt s = lit ''unknown'') = (en = 0 \<and> es = 0 \<and> fr = 0 \<and> de = 0)"
    unfolding d using names by (auto simp: max_def)
  ultimately show ?thesis
    by (simp add: language_sets_card en_def es_def fr_def de_def)
qed

lemma detect_language_example:
  "detect_language ascii_runtime (lit ''DE el la in'') = lit ''es''"
  by (simp add: detect_language_def english_words_def spanish_words_def french_words_def
      german_words_def ascii_runtime_def to_ascii_lower_def ascii_upper_def eval_defs)

section \<open>Properties of the structure analysis\<close>

lemma heading_loop_filter:
  assumes "\<forall>p\<in>set ps. snd p = lines ! fst p"
  shows "heading_loop rt lines ps acc =
           acc @ map (heading_at rt lines) (filter (heading_candidate lines) (map fst ps))"
  using assms
proof (induction ps arbitrary: acc)
  case Nil
  then show ?case by simp
next
  case (Cons p ps)
  obtain i line where p: "p = (i, line)" by (cases p)
  from Cons.prems p have line: "line = lines ! i" and rest: "\<forall>p\<in>set ps. snd p = lines ! fst p"
    by simp_all
  show ?case
    by (simp add: p line Cons.IH [OF rest] Let_def heading_candidate_def heading_at_def
        word_count_def guess_heading_level_def)
qed

lemma enumerate_lines: "\<forall>p\<in>set (enumerate 0 lines). snd p = lines ! fst p"
  by (auto simp: in_set_enumerate_eq)

text \<open>
  Claim C8: the headings reported are, in order, the lines that are candidates (more than
  3 and at most 10 words, followed by a line of more than 10 words), each at its
  zero-based line index, with level 1 for an upper-case line, else 2 for at most 5 words,
  else 3.
\<close>

theorem headings_characterised:
  "headings (analyze_structure rt s) =
     map (heading_at rt (split_char 10 s))
       (filter (heading_candidate (split_char 10 s)) [0..<length (split_char 10 s)])"
  by (simp add: analyze_structure_def Let_def heading_loop_filter [OF enumerate_lines])

theorem headings_characterised_witness:
  "headings (analyze_structure ascii_runtime
     (lit ''one two three four five'' @ [10] @ lit ''a b c d e f g h i j k l'' @ [10])) =
   [\<lparr>heading_text = lit ''one two three four five'', heading_position = 0,
     heading_level = 2\<rparr>]"
proof -
  let ?s = "lit ''one two three four five'' @ [10] @ lit ''a b c d e f g h i j k l'' @ [10]"
  have l: "split_char 10 ?s =
      [lit ''one two three four five'', lit ''a b c d e f g h i j k l'', []]"
    by (simp add: split_char_def lit_def)
  have w: "word_count (lit ''one two three four five'') = 5"
    "word_count (lit ''a b c d e f g h i j k l'') = 12" "word_count [] = 0"
    by (simp_all add: word_count_def eval_defs)
  have u: "\<not> str_isupper ascii_runtime (lit ''one two three four five'')"
    by (simp add: runtime_defs eval_defs)
  have st: "strip (lit ''one two three four five'') = lit ''one two three four five''"
    by (simp add: eval_defs)
  have n: "[0..<3] = [0, 1, 2]" by (simp add: upt_rec)
  show ?thesis
    unfolding headings_characterised l
    by (simp add: n heading_candidate_def heading_at_def w u st)
qed

section \<open>Properties of the table extraction\<close>

lemmas table_defs = extract_tables_def table_of_element_def parse_table_def cell_string_def
  content_runs_def element_runs_def subscript_def get_or_empty_def

text \<open>
  Claim C3: a missing key at any level of the document tree is treated as empty and raises
  no error. The extraction breaks it at one level: a text run without its \<open>content\<close> key
  is a \<open>KeyError\<close>.
\<close>

theorem extract_tables_run_without_content:
  "extract_tables
     (Document (Some (Body (Some
       [BodyElement (Some (Table (Some
         [TableRow (Some
           [TableCell (Some
             [CellContent (Some (Paragraph (Some
               [ParagraphElement (Some (TextRun None))])))])])])))])))) =
   Inl KeyError"
  by (simp add: table_defs)

text \<open>At every other level an absent key is read as empty.\<close>

lemma extract_tables_other_levels_absent:
  "extract_tables (Document None) = Inr []"
  "extract_tables (Document (Some (Body None))) = Inr []"
  "extract_tables (Document (Some (Body (Some [BodyElement None])))) = Inr []"
  "extract_tables (Document (Some (Body (Some [BodyElement (Some (Table None))])))) =
     Inr [\<lparr>rows = 0, columns = 0, data = []\<rparr>]"
  "extract_tables (Document (Some (Body (Some
     [BodyElement (Some (Table (Some [TableRow None])))])))) =
     Inr [\<lparr>rows = 1, columns = 0, data = [ [] ]\<rparr>]"
  "extract_tables (Document (Some (Body (Some
     [BodyElement (Some (Table (Some [TableRow (Some [TableCell None])])))])))) =
     Inr [\<lparr>rows = 1, columns = 1, data = [ [ [] ] ]\<rparr>]"
  "extract_tables (Document (Some (Body (Some
     [BodyElement (Some (Table (Some [TableRow (Some
        [TableCell (Some [CellContent None, CellContent (Some (Paragraph None)),
           CellContent (Some (Paragraph (Some [ParagraphElement None])))])])])))])))) =
     Inr [\<lparr>rows = 1, columns = 1, data = [ [ [] ] ]\<rparr>]"
  by (simp_all add: table_defs strip_def)

end
